theory Spec2Isabelle
  imports Complex_Main
begin

section \<open>JavaScript values\<close>

text \<open>
  Values that cross the wire are JSON values. A JavaScript expression that may also be
  \<^verbatim>\<open>undefined\<close> is a \<open>json option\<close>, with \<open>None\<close> for \<^verbatim>\<open>undefined\<close>.
  Numbers are rationals: no operation of the modelled code computes with them, they are
  only tested for truthiness and passed on.
\<close>

datatype json =
    JNull
  | JBool bool
  | JNum rat
  | JStr string
  | JArr "json list"
  | JObj "(string \<times> json) list"

text \<open>Truthiness, as \<^verbatim>\<open>if (v)\<close>, \<^verbatim>\<open>!v\<close>, \<^verbatim>\<open>a && b\<close> and \<^verbatim>\<open>a || b\<close> test it.\<close>

fun truthy :: "json option \<Rightarrow> bool" where
  "truthy None = False"
| "truthy (Some JNull) = False"
| "truthy (Some (JBool b)) = b"
| "truthy (Some (JNum n)) = (n \<noteq> 0)"
| "truthy (Some (JStr s)) = (s \<noteq> [])"
| "truthy (Some (JArr xs)) = True"
| "truthy (Some (JObj kvs)) = True"

text \<open>
  \<^verbatim>\<open>v.k\<close> on a value other than \<^verbatim>\<open>null\<close>, for the keys the code reads (none of them
  is a built-in property of a string, a number, a boolean or an array). A parsed object
  keeps the last of two bindings of one key. Reading a property of \<^verbatim>\<open>null\<close> throws; the
  callers test for \<open>JNull\<close> first.
\<close>

fun field :: "json \<Rightarrow> string \<Rightarrow> json option" where
  "field (JObj kvs) k = map_of (rev kvs) k"
| "field v k = None"

text \<open>\<^verbatim>\<open>String.prototype.includes\<close>: does \<open>sub\<close> occur in \<open>s\<close> as a contiguous run.\<close>

fun str_includes :: "string \<Rightarrow> string \<Rightarrow> bool" where
  "str_includes [] sub = (sub = [])"
| "str_includes (c # cs) sub = (take (length sub) (c # cs) = sub \<or> str_includes cs sub)"

text \<open>
  A thrown value: an \<^verbatim>\<open>Error\<close> object (name and message), or anything else (with its
  rendering as a string).
\<close>

datatype thrown = ErrorObj string string | NonError string

text \<open>\<^verbatim>\<open>`${error}`\<close>: \<^verbatim>\<open>Error.prototype.toString\<close> for an error object.\<close>

fun thrown_to_string :: "thrown \<Rightarrow> string" where
  "thrown_to_string (ErrorObj n m) =
     (if n = [] then m else if m = [] then n else n @ '': '' @ m)"
| "thrown_to_string (NonError s) = s"

section \<open>PatientSimulator: the conversation log\<close>

datatype sender = User | Bot

record Message =
  msg_id :: string
  content :: string
  sender :: sender
  timestamp :: int

text \<open>
  The \<^verbatim>\<open>onTranscript\<close> callback that PatientSimulator hands to VoiceCommand, with the
  state updater it passes to \<^verbatim>\<open>setMessages\<close> applied to the previous log \<open>prev\<close>.
  \<open>new_id\<close> is the identifier built from \<^verbatim>\<open>Date.now()\<close> and \<^verbatim>\<open>Math.random()\<close>, \<open>now\<close> is
  \<^verbatim>\<open>new Date().getTime()\<close> in milliseconds.
\<close>

definition PatientSimulator_onTranscript ::
  "string \<Rightarrow> int \<Rightarrow> string \<Rightarrow> bool \<Rightarrow> Message list \<Rightarrow> Message list" where
  "PatientSimulator_onTranscript new_id now text isUser prev =
     (let message = \<lparr>msg_id = new_id, content = text,
                      sender = (if isUser then User else Bot), timestamp = now\<rparr>;
          isDuplicate = list_ex (\<lambda>msg.
              content msg = text \<and>
              sender msg = sender message \<and>
              \<bar>timestamp msg - timestamp message\<bar> < 2000) prev
      in if isDuplicate then prev else prev @ [message])"

section \<open>Effects shared by the two voice components\<close>

text \<open>
  Browser objects (peer connections, data channels, media tracks, audio elements) are
  handles; a media stream is the list of its tracks, as \<^verbatim>\<open>getTracks()\<close> returns them.
\<close>

type_synonym handle = nat
type_synonym media_stream = "handle list"

datatype VoiceChatState = Idle | Connecting | Connected | Speaking | Listening | Error

text \<open>
  \<^verbatim>\<open>RTCDataChannelInit\<close>, the options of \<^verbatim>\<open>createDataChannel\<close>. An option left out is
  \<open>None\<close>; WebRTC then takes \<^verbatim>\<open>ordered\<close> to be true, and a channel with neither
  \<^verbatim>\<open>maxPacketLifeTime\<close> nor \<^verbatim>\<open>maxRetransmits\<close> is reliable.
\<close>

record dc_init =
  ordered :: "bool option"
  maxPacketLifeTime :: "nat option"
  maxRetransmits :: "nat option"

definition dc_ordered :: "dc_init \<Rightarrow> bool" where
  "dc_ordered i = (case ordered i of None \<Rightarrow> True | Some b \<Rightarrow> b)"

definition dc_reliable :: "dc_init \<Rightarrow> bool" where
  "dc_reliable i = (maxPacketLifeTime i = None \<and> maxRetransmits i = None)"

text \<open>
  What a component does to the world outside its own state, in the order it does it.
  \<open>OnStateChange\<close> and \<open>OnTranscript\<close> are the calls of the optional callbacks of the
  same names; \<open>SetStatus\<close> and \<open>SetIsActive\<close> are VoiceCommand's state setters, kept in
  the trace for their place in the order.
\<close>

datatype action =
    OnStateChange VoiceChatState
  | OnTranscript json bool
  | SetStatus string
  | SetIsActive bool
  | ConsoleLog string
  | ConsoleError string
  | FetchRtcToken string "string option" string
  | GetUserMedia
  | NewPeerConnection handle
  | CreateDataChannel handle handle string dc_init
  | AddTrack handle handle
  | CreateOffer handle
  | SetLocalDescription handle string
  | PostOffer "json option" string
  | SetRemoteDescription handle string
  | Send handle json
  | CloseDataChannel handle
  | ClosePeerConnection handle
  | StopTrack handle
  | PauseAudio handle

fun is_CreateDataChannel :: "action \<Rightarrow> bool" where
  "is_CreateDataChannel (CreateDataChannel pc dc label i) = True"
| "is_CreateDataChannel a = False"

fun is_CreateOffer :: "action \<Rightarrow> bool" where
  "is_CreateOffer (CreateOffer pc) = True"
| "is_CreateOffer a = False"

text \<open>The actions that release a resource.\<close>

fun is_release :: "action \<Rightarrow> bool" where
  "is_release (CloseDataChannel dc) = True"
| "is_release (ClosePeerConnection pc) = True"
| "is_release (StopTrack t) = True"
| "is_release (PauseAudio a) = True"
| "is_release a = False"

text \<open>The component's props, \<^verbatim>\<open>sessionType\<close> after its default \<^verbatim>\<open>'chat'\<close>.\<close>

record props =
  userId :: string
  scenarioId :: "string option"
  sessionType :: string

text \<open>
  The outcome of every awaited browser operation of one start, given from outside:
  \<open>Inl\<close> (or \<open>Some\<close> for an operation without a result) is the value a rejected promise
  throws. \<open>new_pc\<close> and \<open>new_dc\<close> are the objects that \<^verbatim>\<open>new RTCPeerConnection\<close> and
  \<^verbatim>\<open>createDataChannel\<close> return. \<open>sdp_fetch\<close> and \<open>remote_desc\<close> are used by VoiceCommand
  only.
\<close>

record 'a http_response =
  ok :: bool
  statusText :: string
  body :: "thrown + 'a"

record start_env =
  token_fetch :: "thrown + json http_response"
  user_media :: "thrown + media_stream"
  new_pc :: handle
  new_dc :: handle
  offer :: "thrown + string"
  local_desc :: "thrown option"
  sdp_fetch :: "thrown + string http_response"
  remote_desc :: "thrown option"

text \<open>
  \<^verbatim>\<open>JSON.stringify\<close> of an object literal: a property whose value is \<^verbatim>\<open>undefined\<close> is
  left out.
\<close>

fun obj :: "(string \<times> json option) list \<Rightarrow> (string \<times> json) list" where
  "obj [] = []"
| "obj ((k, None) # kvs) = obj kvs"
| "obj ((k, Some v) # kvs) = (k, v) # obj kvs"

section \<open>VoiceChat (client/src/components/VoiceChat.tsx)\<close>

record transcript_entry =
  entry_text :: json
  isUser :: bool
  entry_timestamp :: int

text \<open>The component's state hooks and refs; a ref holding \<^verbatim>\<open>null\<close> is \<open>None\<close>.\<close>

record VoiceChat =
  state :: VoiceChatState
  isMuted :: bool
  isOutputMuted :: bool
  transcript :: "transcript_entry list"
  error :: "json option"
  peerConnectionRef :: "handle option"
  localStreamRef :: "media_stream option"
  audioOutputRef :: "handle option"
  dataChannelRef :: "handle option"

definition updateState :: "VoiceChatState \<Rightarrow> VoiceChat \<Rightarrow> VoiceChat \<times> action list" where
  "updateState newState s = (s\<lparr>state := newState\<rparr>, [OnStateChange newState])"

definition addTranscript :: "int \<Rightarrow> json \<Rightarrow> bool \<Rightarrow> VoiceChat \<Rightarrow> VoiceChat \<times> action list" where
  "addTranscript now txt isU s =
     (s\<lparr>transcript := transcript s @ [\<lparr>entry_text = txt, isUser = isU, entry_timestamp = now\<rparr>]\<rparr>,
      [OnTranscript txt isU])"

text \<open>The request is the \<open>FetchRtcToken\<close> action of the caller; this is what comes back.\<close>

definition getRTCToken :: "start_env \<Rightarrow> thrown + json" where
  "getRTCToken env =
     (case token_fetch env of
        Inl e \<Rightarrow> Inl e
      | Inr response \<Rightarrow>
          if \<not> ok response
          then Inl (ErrorObj ''Error'' (''Failed to get RTC token: '' @ statusText response))
          else body response)"

definition initializeAudio :: "start_env \<Rightarrow> VoiceChat \<Rightarrow> thrown + (media_stream \<times> VoiceChat)" where
  "initializeAudio env s =
     (case user_media env of
        Inl e \<Rightarrow> Inl (ErrorObj ''Error'' (''Failed to access microphone: '' @ thrown_to_string e))
      | Inr stream \<Rightarrow> Inr (stream, s\<lparr>localStreamRef := Some stream\<rparr>))"

text \<open>
  Creating the connection and its channel on a fresh connection does not fail. The four
  handlers it installs are the functions \<open>dataChannel_onopen\<close>, \<open>dataChannel_onmessage\<close>,
  \<open>pc_ontrack\<close> and \<open>pc_onconnectionstatechange\<close> below.
\<close>

definition createPeerConnection :: "start_env \<Rightarrow> VoiceChat \<Rightarrow> VoiceChat \<times> action list" where
  "createPeerConnection env s =
     (s\<lparr>peerConnectionRef := Some (new_pc env), dataChannelRef := Some (new_dc env)\<rparr>,
      [NewPeerConnection (new_pc env),
       CreateDataChannel (new_pc env) (new_dc env) ''events''
         \<lparr>ordered = Some True, maxPacketLifeTime = None, maxRetransmits = None\<rparr>])"

text \<open>\<open>token\<close> is the token the handler closed over; \<^verbatim>\<open>token.token\<close> throws on \<^verbatim>\<open>null\<close>.\<close>

definition dataChannel_onopen :: "json \<Rightarrow> handle \<Rightarrow> thrown + action list" where
  "dataChannel_onopen token dataChannel =
     (if token = JNull
      then Inl (ErrorObj ''TypeError'' ''Cannot read properties of null'')
      else Inr [ConsoleLog ''Data channel opened'',
                Send dataChannel (JObj [(''type'', JStr ''session_update''),
                  (''session'', JObj (obj [(''token'', field token ''token'')]))])])"

text \<open>\<^verbatim>\<open>event.error?.message || 'Unknown error'\<close>\<close>

definition error_message :: "json \<Rightarrow> json" where
  "error_message event =
     (let m = (case field event ''error'' of
                 None \<Rightarrow> None
               | Some JNull \<Rightarrow> None
               | Some e \<Rightarrow> field e ''message'')
      in case m of
           None \<Rightarrow> JStr ''Unknown error''
         | Some v \<Rightarrow> if truthy m then v else JStr ''Unknown error'')"

definition handleRealtimeEvent ::
  "int \<Rightarrow> json \<Rightarrow> VoiceChat \<Rightarrow> thrown + (VoiceChat \<times> action list)" where
  "handleRealtimeEvent now event s =
     (if event = JNull then Inl (ErrorObj ''TypeError'' ''Cannot read properties of null'')
      else
        let ty = field event ''type'' in
        if ty = Some (JStr ''response.audio_transcript.delta'') then Inr (s, [])
        else if ty = Some (JStr ''response.audio_transcript.done'') then
          (let (s1, a1) = (case field event ''transcript'' of
                             None \<Rightarrow> (s, [])
                           | Some t \<Rightarrow> if truthy (Some t) then addTranscript now t False s
                                       else (s, []));
               (s2, a2) = updateState Listening s1
           in Inr (s2, a1 @ a2))
        else if ty = Some (JStr ''conversation.item.input_audio_transcription.completed'') then
          (case field event ''transcript'' of
             None \<Rightarrow> Inr (s, [])
           | Some t \<Rightarrow> if truthy (Some t) then Inr (addTranscript now t True s) else Inr (s, []))
        else if ty = Some (JStr ''response.audio.delta'') then Inr (updateState Speaking s)
        else if ty = Some (JStr ''input_audio_buffer.speech_started'') then
          Inr (updateState Listening s)
        else if ty = Some (JStr ''input_audio_buffer.speech_stopped'') then
          Inr (updateState Connected s)
        else if ty = Some (JStr ''error'') then
          (let (s1, a1) = updateState Error s
           in Inr (s1\<lparr>error := Some (error_message event)\<rparr>, a1))
        else Inr (s, []))"

text \<open>
  \<open>parse\<close> is \<^verbatim>\<open>JSON.parse\<close>, \<open>None\<close> where it throws a \<^verbatim>\<open>SyntaxError\<close>. The \<^verbatim>\<open>catch\<close>
  also takes what the dispatcher throws.
\<close>

definition dataChannel_onmessage ::
  "(string \<Rightarrow> json option) \<Rightarrow> int \<Rightarrow> string \<Rightarrow> VoiceChat \<Rightarrow> VoiceChat \<times> action list" where
  "dataChannel_onmessage parse now frame s =
     (case parse frame of
        None \<Rightarrow> (s, [ConsoleError ''Error parsing data channel message:''])
      | Some data \<Rightarrow>
          (case handleRealtimeEvent now data s of
             Inl e \<Rightarrow> (s, [ConsoleError ''Error parsing data channel message:''])
           | Inr r \<Rightarrow> r))"

text \<open>\<open>audioElement\<close> is the element that \<^verbatim>\<open>new Audio()\<close> returns.\<close>

definition pc_ontrack :: "bool \<Rightarrow> handle \<Rightarrow> VoiceChat \<Rightarrow> VoiceChat \<times> action list" where
  "pc_ontrack kind_is_audio audioElement s =
     (if kind_is_audio
      then (s\<lparr>audioOutputRef := Some audioElement\<rparr>, [ConsoleLog ''Received remote track:''])
      else (s, [ConsoleLog ''Received remote track:'']))"

definition pc_onconnectionstatechange :: "string \<Rightarrow> VoiceChat \<Rightarrow> VoiceChat \<times> action list" where
  "pc_onconnectionstatechange connectionState s =
     (if connectionState = ''connected''
      then (let (s1, a1) = updateState Connected s in (s1, ConsoleLog ''Connection state:'' # a1))
      else if connectionState = ''disconnected'' \<or> connectionState = ''failed''
      then (let (s1, a1) = updateState Error s
            in (s1\<lparr>error := Some (JStr ''Connection lost'')\<rparr>, ConsoleLog ''Connection state:'' # a1))
      else (s, [ConsoleLog ''Connection state:'']))"

text \<open>The \<^verbatim>\<open>catch\<close> block of \<open>startVoiceChat\<close>, after the actions \<open>acts\<close> done so far.\<close>

definition startVoiceChat_catch ::
  "thrown \<Rightarrow> VoiceChat \<Rightarrow> action list \<Rightarrow> VoiceChat \<times> action list" where
  "startVoiceChat_catch e s acts =
     (let (s1, a1) = updateState Error s
      in (s1\<lparr>error := Some (JStr (case e of
                                     ErrorObj n m \<Rightarrow> m
                                   | NonError x \<Rightarrow> ''Failed to start voice chat''))\<rparr>,
          acts @ [ConsoleError ''Error starting voice chat:''] @ a1))"

definition startVoiceChat :: "props \<Rightarrow> start_env \<Rightarrow> VoiceChat \<Rightarrow> VoiceChat \<times> action list" where
  "startVoiceChat p env s0 =
     (let (s1, a1) = updateState Connecting s0;
          s2 = s1\<lparr>error := None\<rparr>;
          a2 = a1 @ [FetchRtcToken (userId p) (scenarioId p) (sessionType p)]
      in case getRTCToken env of
           Inl e \<Rightarrow> startVoiceChat_catch e s2 a2
         | Inr token \<Rightarrow>
             (let a3 = a2 @ [GetUserMedia]
              in case initializeAudio env s2 of
                   Inl e \<Rightarrow> startVoiceChat_catch e s2 a3
                 | Inr (stream, s3) \<Rightarrow>
                     (let (s4, a4) = createPeerConnection env s3;
                          a5 = a3 @ a4 @ map (AddTrack (new_pc env)) stream
                                 @ [CreateOffer (new_pc env)]
                      in case offer env of
                           Inl e \<Rightarrow> startVoiceChat_catch e s4 a5
                         | Inr sdp \<Rightarrow>
                             (let a6 = a5 @ [SetLocalDescription (new_pc env) sdp]
                              in case local_desc env of
                                   Some e \<Rightarrow> startVoiceChat_catch e s4 a6
                                 | None \<Rightarrow>
                                     (let (s5, a7) = updateState Connected s4
                                      in (s5, a6 @ [ConsoleLog ''SDP Offer:''] @ a7))))))"

definition stopVoiceChat :: "VoiceChat \<Rightarrow> VoiceChat \<times> action list" where
  "stopVoiceChat s0 =
     (let (s1, a1) = (case peerConnectionRef s0 of
                        Some pc \<Rightarrow> (s0\<lparr>peerConnectionRef := None\<rparr>, [ClosePeerConnection pc])
                      | None \<Rightarrow> (s0, []));
          (s2, a2) = (case localStreamRef s1 of
                        Some stream \<Rightarrow> (s1\<lparr>localStreamRef := None\<rparr>, map StopTrack stream)
                      | None \<Rightarrow> (s1, []));
          (s3, a3) = (case audioOutputRef s2 of
                        Some audio \<Rightarrow> (s2\<lparr>audioOutputRef := None\<rparr>, [PauseAudio audio])
                      | None \<Rightarrow> (s2, []));
          (s4, a4) = updateState Idle s3
      in (s4, a1 @ a2 @ a3 @ a4))"

section \<open>VoiceCommand (the second voice component)\<close>

text \<open>
  The component's state hooks and refs. \<open>onopen\<close> is the \<^verbatim>\<open>dc.onopen\<close> handler once it
  is installed: the channel it was installed on and the \<^verbatim>\<open>instructions\<close> it closed over.
\<close>

record VoiceCommand =
  isActive :: bool
  status :: string
  pcRef :: "handle option"
  micStreamRef :: "media_stream option"
  dcRef :: "handle option"
  onopen :: "(handle \<times> json option) option"

text \<open>
  \<^verbatim>\<open>msg.type?.includes(sub)\<close>. On \<^verbatim>\<open>undefined\<close> and \<^verbatim>\<open>null\<close> the optional chain gives
  \<^verbatim>\<open>undefined\<close>; a string and an array have an \<^verbatim>\<open>includes\<close> method; on a number, a
  boolean or an object the call throws a \<^verbatim>\<open>TypeError\<close>.
\<close>

fun includes_throws :: "json option \<Rightarrow> bool" where
  "includes_throws (Some (JBool b)) = True"
| "includes_throws (Some (JNum n)) = True"
| "includes_throws (Some (JObj kvs)) = True"
| "includes_throws v = False"

fun type_includes :: "json option \<Rightarrow> string \<Rightarrow> bool" where
  "type_includes (Some (JStr t)) sub = str_includes t sub"
| "type_includes (Some (JArr xs)) sub = (JStr sub \<in> set xs)"
| "type_includes v sub = False"

text \<open>\<^verbatim>\<open>if (v && onTranscript) onTranscript(v, isUser)\<close>; \<open>cb\<close>: the callback prop is given.\<close>

definition emit :: "bool \<Rightarrow> json option \<Rightarrow> bool \<Rightarrow> action list" where
  "emit cb v isU =
     (case v of None \<Rightarrow> [] | Some x \<Rightarrow> if truthy v \<and> cb then [OnTranscript x isU] else [])"

text \<open>
  The \<^verbatim>\<open>dc.onmessage\<close> handler. It changes no state of the component: all it does is
  log and call \<^verbatim>\<open>onTranscript\<close>. The one place after parsing where it can throw is the
  first \<^verbatim>\<open>includes\<close> call (the later ones are on the same value).
\<close>

definition dc_onmessage :: "(string \<Rightarrow> json option) \<Rightarrow> bool \<Rightarrow> string \<Rightarrow> action list" where
  "dc_onmessage parse cb frame =
     (case parse frame of
        None \<Rightarrow> [ConsoleError ''Error parsing message:'']
      | Some msg \<Rightarrow>
          if msg = JNull then [ConsoleError ''Error parsing message:'']
          else
            let ty = field msg ''type'';
                a0 = [ConsoleLog ''EVENT''];
                a1 = (if ty = Some (JStr ''conversation.item.input_audio_transcription.completed'')
                      then emit cb (field msg ''transcript'') True else [])
            in if ty \<noteq> Some (JStr ''input_audio_buffer.speech_started'') \<and> includes_throws ty
               then a0 @ a1 @ [ConsoleError ''Error parsing message:'']
               else
                 let a2 = (if ty = Some (JStr ''input_audio_buffer.speech_started'')
                              \<or> type_includes ty ''input_audio_transcription''
                           then emit cb (field msg ''transcript'') True else []);
                     a3 = (if ty = Some (JStr ''response.text.delta'')
                              \<or> ty = Some (JStr ''response.output_text.delta'')
                           then emit cb (field msg ''delta'') False else []);
                     a4 = (if ty = Some (JStr ''response.text.done'')
                              \<or> ty = Some (JStr ''response.output_text.done'')
                           then emit cb (field msg ''text'') False else []);
                     a5 = (if type_includes ty ''transcript''
                           then emit cb (field msg ''transcript'')
                                  (type_includes ty ''input'' \<or> type_includes ty ''user'')
                           else [])
                 in a0 @ a1 @ a2 @ a3 @ a4 @ a5)"

text \<open>The \<^verbatim>\<open>dc.onopen\<close> handler that \<open>startVoice\<close> installs as its last step.\<close>

definition dc_onopen :: "handle \<Rightarrow> json option \<Rightarrow> action list" where
  "dc_onopen dc instructions =
     [Send dc (JObj [(''type'', JStr ''session.update''),
        (''session'', JObj (obj [
           (''instructions'', instructions),
           (''voice'', Some (JStr ''alloy'')),
           (''input_audio_format'', Some (JStr ''pcm16'')),
           (''output_audio_format'', Some (JStr ''pcm16'')),
           (''input_audio_transcription'', Some (JObj [(''model'', JStr ''whisper-1'')])),
           (''turn_detection'', Some (JObj [(''type'', JStr ''server_vad''),
                                            (''threshold'', JNum (1 / 2)),
                                            (''silence_duration_ms'', JNum 500)]))]))])]"

text \<open>The channel opens: the installed handler runs, if there is one.\<close>

definition channel_open :: "VoiceCommand \<Rightarrow> action list" where
  "channel_open c = (case onopen c of None \<Rightarrow> [] | Some (dc, instructions) \<Rightarrow> dc_onopen dc instructions)"

text \<open>The \<^verbatim>\<open>catch\<close> block of \<open>startVoice\<close>, after the actions \<open>acts\<close> done so far.\<close>

definition startVoice_catch :: "VoiceCommand \<Rightarrow> action list \<Rightarrow> VoiceCommand \<times> action list" where
  "startVoice_catch c acts =
     (c\<lparr>status := ''error'', isActive := False\<rparr>,
      acts @ [ConsoleError ''Error starting voice:'', SetStatus ''error'', SetIsActive False])"

text \<open>
  As in VoiceChat, creating the connection and its channel and adding the tracks do not
  fail. The connection and the channel are created before the microphone is asked for.
\<close>

definition startVoice :: "props \<Rightarrow> start_env \<Rightarrow> VoiceCommand \<Rightarrow> VoiceCommand \<times> action list" where
  "startVoice p env c0 =
     (let c1 = c0\<lparr>status := ''connecting''\<rparr>;
          a1 = [SetStatus ''connecting'', FetchRtcToken (userId p) (scenarioId p) (sessionType p)]
      in case token_fetch env of
           Inl e \<Rightarrow> startVoice_catch c1 a1
         | Inr response \<Rightarrow>
             if \<not> ok response then startVoice_catch c1 a1
             else
               (case body response of
                  Inl e \<Rightarrow> startVoice_catch c1 a1
                | Inr tok \<Rightarrow>
                    if tok = JNull then startVoice_catch c1 a1
                    else
                     (let client_secret = field tok ''client_secret'';
                          instructions = field tok ''instructions'';
                          pc = new_pc env;
                          dc = new_dc env;
                          c2 = c1\<lparr>pcRef := Some pc, dcRef := Some dc\<rparr>;
                          a2 = a1 @ [NewPeerConnection pc,
                                     CreateDataChannel pc dc ''oai-events''
                                       \<lparr>ordered = None, maxPacketLifeTime = None,
                                        maxRetransmits = None\<rparr>,
                                     GetUserMedia]
                      in case user_media env of
                           Inl e \<Rightarrow> startVoice_catch c2 a2
                         | Inr micStream \<Rightarrow>
                             (let c3 = c2\<lparr>micStreamRef := Some micStream\<rparr>;
                                  a3 = a2 @ map (AddTrack pc) micStream @ [CreateOffer pc]
                              in case offer env of
                                   Inl e \<Rightarrow> startVoice_catch c3 a3
                                 | Inr sdp \<Rightarrow>
                                     (let a4 = a3 @ [SetLocalDescription pc sdp]
                                      in case local_desc env of
                                           Some e \<Rightarrow> startVoice_catch c3 a4
                                         | None \<Rightarrow>
   (let a5 = a4 @ [PostOffer client_secret sdp]
    in case sdp_fetch env of
         Inl e \<Rightarrow> startVoice_catch c3 a5
       | Inr rtcResponse \<Rightarrow>
           if \<not> ok rtcResponse then startVoice_catch c3 a5
           else
             (case body rtcResponse of
                Inl e \<Rightarrow> startVoice_catch c3 a5
              | Inr answerSdp \<Rightarrow>
                  (let a6 = a5 @ [SetRemoteDescription pc answerSdp]
                   in case remote_desc env of
                        Some e \<Rightarrow> startVoice_catch c3 a6
                      | None \<Rightarrow>
                          (c3\<lparr>onopen := Some (dc, instructions),
                              status := ''connected'', isActive := True\<rparr>,
                           a6 @ [SetStatus ''connected'', SetIsActive True])))))))))"

definition stopVoice :: "VoiceCommand \<Rightarrow> VoiceCommand \<times> action list" where
  "stopVoice c0 =
     (let (c1, a1) = (case dcRef c0 of
                        Some dc \<Rightarrow> (c0\<lparr>dcRef := None\<rparr>, [CloseDataChannel dc])
                      | None \<Rightarrow> (c0, []));
          (c2, a2) = (case pcRef c1 of
                        Some pc \<Rightarrow> (c1\<lparr>pcRef := None\<rparr>, [ClosePeerConnection pc])
                      | None \<Rightarrow> (c1, []));
          (c3, a3) = (case micStreamRef c2 of
                        Some micStream \<Rightarrow> (c2\<lparr>micStreamRef := None\<rparr>, map StopTrack micStream)
                      | None \<Rightarrow> (c2, []))
      in (c3\<lparr>status := ''idle'', isActive := False\<rparr>,
          a1 @ a2 @ a3 @ [SetStatus ''idle'', SetIsActive False]))"

section \<open>The credential endpoint (POST /api/rtc-token)\<close>

text \<open>The two instruction texts, in UTF-8: the accented letters are two bytes each.\<close>

definition e_acute :: string where "e_acute = [CHR 0xC3, CHR 0xA9]"
definition e_grave :: string where "e_grave = [CHR 0xC3, CHR 0xA8]"
definition e_circ :: string where "e_circ = [CHR 0xC3, CHR 0xAA]"

definition ecos_instructions :: string where
  "ecos_instructions =
     ''Vous '' @ e_circ @ ''tes un patient virtuel dans une simulation ECOS. R'' @ e_acute
     @ ''pondez de mani'' @ e_grave @ ''re r'' @ e_acute @ ''aliste selon le sc'' @ e_acute
     @ ''nario clinique. Utilisez un ton naturel et conversationnel.''"

definition chat_instructions :: string where
  "chat_instructions =
     ''Vous '' @ e_circ @ ''tes un assistant '' @ e_acute @ ''ducatif sp'' @ e_acute
     @ ''cialis'' @ e_acute @ '' en formation m'' @ e_acute @ ''dicale. R'' @ e_acute
     @ ''pondez de mani'' @ e_grave @ ''re claire et p'' @ e_acute @ ''dagogique.''"

text \<open>An HTTP reply: the status code and the JSON body.\<close>

datatype reply = Reply nat json

text \<open>
  The handler. \<open>OPENAI_API_KEY\<close> is the environment variable of the server process,
  \<open>now\<close> is \<^verbatim>\<open>Date.now()\<close> in milliseconds, \<open>toISOString\<close> is how \<^verbatim>\<open>res.json\<close> writes
  a \<^verbatim>\<open>Date\<close>, \<open>req_body\<close> is the parsed request body. Destructuring \<^verbatim>\<open>null\<close> throws
  into the \<^verbatim>\<open>catch\<close> block.
\<close>

definition rtc_token :: "string option \<Rightarrow> (int \<Rightarrow> string) \<Rightarrow> int \<Rightarrow> json \<Rightarrow> reply" where
  "rtc_token OPENAI_API_KEY toISOString now req_body =
     (if req_body = JNull
      then Reply 500 (JObj [(''error'', JStr ''Failed to create RTC session''),
                            (''details'', JStr ''Cannot destructure property of null'')])
      else
        let uid = field req_body ''userId'';
            scen = field req_body ''scenarioId'';
            stype = (case field req_body ''sessionType'' of
                       None \<Rightarrow> Some (JStr ''chat'')
                     | Some v \<Rightarrow> Some v)
        in if \<not> truthy uid then Reply 400 (JObj [(''error'', JStr ''userId is required'')])
           else
             (case OPENAI_API_KEY of
                None \<Rightarrow> Reply 500 (JObj [(''error'', JStr ''OpenAI API key not configured'')])
              | Some client_secret \<Rightarrow>
                  if client_secret = []
                  then Reply 500 (JObj [(''error'', JStr ''OpenAI API key not configured'')])
                  else
                    let instructions = (if stype = Some (JStr ''ecos_simulation'')
                                        then ecos_instructions else chat_instructions)
                    in Reply 200 (JObj (obj [
                         (''client_secret'', Some (JStr client_secret)),
                         (''instructions'', Some (JStr instructions)),
                         (''sessionType'', stype),
                         (''userId'', uid),
                         (''scenarioId'', scen),
                         (''expiresAt'', Some (JStr (toISOString (now + 60 * 60 * 1000))))]))))"

section \<open>What the specification asks of the session-control message\<close>

text \<open>
  The dispatch rule in the specification's words, as a check on a message: it carries
  the credential's instructions, the declared input and output audio formats, a
  transcription-model selector, and a voice-activity-detection policy with a threshold
  and a trailing-silence duration.
\<close>

definition spec_session_control :: "json option \<Rightarrow> json \<Rightarrow> bool" where
  "spec_session_control instructions msg =
     (case field msg ''session'' of
        None \<Rightarrow> False
      | Some session \<Rightarrow>
          instructions \<noteq> None \<and>
          field session ''instructions'' = instructions \<and>
          field session ''input_audio_format'' \<noteq> None \<and>
          field session ''output_audio_format'' \<noteq> None \<and>
          (case field session ''input_audio_transcription'' of
             None \<Rightarrow> False
           | Some t \<Rightarrow> field t ''model'' \<noteq> None) \<and>
          (case field session ''turn_detection'' of
             None \<Rightarrow> False
           | Some vad \<Rightarrow> field vad ''threshold'' \<noteq> None
                        \<and> field vad ''silence_duration_ms'' \<noteq> None))"

section \<open>Reading a trace\<close>

text \<open>The actions of the offer/answer exchange.\<close>

fun is_exchange :: "action \<Rightarrow> bool" where
  "is_exchange (PostOffer secret sdp) = True"
| "is_exchange (SetRemoteDescription pc sdp) = True"
| "is_exchange a = False"

text \<open>The channels created before the first offer is generated.\<close>

definition channels_before_offer :: "action list \<Rightarrow> action list" where
  "channels_before_offer tr =
     filter is_CreateDataChannel (takeWhile (\<lambda>a. \<not> is_CreateOffer a) tr)"

section \<open>Concrete sessions\<close>

text \<open>The components as they are mounted.\<close>

definition initial_VoiceChat :: VoiceChat where
  "initial_VoiceChat =
     \<lparr>state = Idle, isMuted = False, isOutputMuted = False, transcript = [], error = None,
      peerConnectionRef = None, localStreamRef = None, audioOutputRef = None,
      dataChannelRef = None\<rparr>"

definition initial_VoiceCommand :: VoiceCommand where
  "initial_VoiceCommand =
     \<lparr>isActive = False, status = ''idle'', pcRef = None, micStreamRef = None, dcRef = None,
      onopen = None\<rparr>"

text \<open>The same components holding a connection, a channel, a stream and a playback element.\<close>

definition held_VoiceChat :: VoiceChat where
  "held_VoiceChat = initial_VoiceChat\<lparr>state := Connected, peerConnectionRef := Some 1,
     localStreamRef := Some [3], audioOutputRef := Some 4, dataChannelRef := Some 2\<rparr>"

definition held_VoiceCommand :: VoiceCommand where
  "held_VoiceCommand = initial_VoiceCommand\<lparr>isActive := True, status := ''connected'',
     pcRef := Some 1, micStreamRef := Some [3], dcRef := Some 2\<rparr>"

definition example_props :: props where
  "example_props = \<lparr>userId = ''student@example.org'', scenarioId = Some ''7'',
                     sessionType = ''ecos_simulation''\<rparr>"

definition example_token :: json where
  "example_token = JObj [(''client_secret'', JStr ''sk-key''),
                         (''instructions'', JStr ''Be brief.''),
                         (''token'', JStr ''tok'')]"

text \<open>A browser in which every step of a start succeeds, and one without a microphone.\<close>

definition ok_env :: start_env where
  "ok_env =
     \<lparr>token_fetch = Inr \<lparr>ok = True, statusText = ''OK'', body = Inr example_token\<rparr>,
      user_media = Inr [3],
      new_pc = 1, new_dc = 2,
      offer = Inr ''v=0 offer'',
      local_desc = None,
      sdp_fetch = Inr \<lparr>ok = True, statusText = ''Created'', body = Inr ''v=0 answer''\<rparr>,
      remote_desc = None\<rparr>"

definition no_mic_env :: start_env where
  "no_mic_env =
     ok_env\<lparr>user_media := Inl (ErrorObj ''NotFoundError'' ''Requested device not found'')\<rparr>"

text \<open>A parser that rejects every frame but \<^verbatim>\<open>null\<close>.\<close>

definition only_null_parses :: "string \<Rightarrow> json option" where
  "only_null_parses frame = (if frame = ''null'' then Some JNull else None)"

text \<open>Two credential requests, and a rendering of dates for them.\<close>

definition example_request :: json where
  "example_request = JObj [(''userId'', JStr ''student@example.org''),
                           (''scenarioId'', JStr ''7''),
                           (''sessionType'', JStr ''ecos_simulation'')]"

definition other_request :: json where
  "other_request = JObj [(''userId'', JStr ''teacher@example.org'')]"

definition sample_toISOString :: "int \<Rightarrow> string" where
  "sample_toISOString t =
     (if t = 3601000 then ''1970-01-01T01:00:01.000Z'' else ''1970-01-01T01:00:05.000Z'')"

section \<open>Transcript deduplication\<close>

text \<open>
  C4. A candidate entry is discarded exactly when the log already holds an entry with the
  same text, the same speaker and a timestamp strictly less than 2000 ms away; otherwise it
  is appended. On an empty log, ("Bonjour", user, t) followed by ("Bonjour", user, t + 500)
  leaves one entry, and followed by ("Bonjour", user, t + 5000) leaves two.
\<close>

theorem dedup_window_2000ms:
  "PatientSimulator_onTranscript i now txt u prev =
     (if (\<exists>m \<in> set prev. content m = txt \<and> sender m = (if u then User else Bot)
            \<and> \<bar>timestamp m - now\<bar> < 2000)
      then prev
      else prev @ [\<lparr>msg_id = i, content = txt,
                     sender = (if u then User else Bot), timestamp = now\<rparr>])
   \<and> length (PatientSimulator_onTranscript i2 (t + 500) ''Bonjour'' True
         (PatientSimulator_onTranscript i1 t ''Bonjour'' True [])) = 1
   \<and> length (PatientSimulator_onTranscript i2 (t + 5000) ''Bonjour'' True
         (PatientSimulator_onTranscript i1 t ''Bonjour'' True [])) = 2"
  by (simp add: PatientSimulator_onTranscript_def Let_def list_ex_iff)

section \<open>Starting without a microphone\<close>

text \<open>
  C1, as amended. When the token has been obtained and the microphone cannot be acquired,
  \<open>initializeAudio\<close> raises the microphone failure and \<open>startVoiceChat\<close> catches it:
  the start ends in state \<open>Error\<close> (not \<open>Idle\<close>) with the message of the microphone
  failure, raises nothing, and creates no peer connection (the refs are unchanged and the
  trace has no \<open>NewPeerConnection\<close>).
\<close>

theorem start_without_microphone:
  assumes "getRTCToken env = Inr token" and "user_media env = Inl e"
  shows "initializeAudio env s' =
           Inl (ErrorObj ''Error'' (''Failed to access microphone: '' @ thrown_to_string e))
   \<and> startVoiceChat p env s =
     (s\<lparr>state := Error,
        error := Some (JStr (''Failed to access microphone: '' @ thrown_to_string e))\<rparr>,
      [OnStateChange Connecting,
       FetchRtcToken (userId p) (scenarioId p) (sessionType p),
       GetUserMedia,
       ConsoleError ''Error starting voice chat:'',
       OnStateChange Error])"
  using assms
  by (simp add: startVoiceChat_def startVoiceChat_catch_def updateState_def initializeAudio_def)

theorem start_without_microphone_witness:
  "getRTCToken no_mic_env = Inr example_token
   \<and> user_media no_mic_env = Inl (ErrorObj ''NotFoundError'' ''Requested device not found'')
   \<and> initializeAudio no_mic_env initial_VoiceChat =
       Inl (ErrorObj ''Error''
         ''Failed to access microphone: NotFoundError: Requested device not found'')
   \<and> startVoiceChat example_props no_mic_env initial_VoiceChat =
     (initial_VoiceChat\<lparr>state := Error,
        error := Some (JStr
          ''Failed to access microphone: NotFoundError: Requested device not found'')\<rparr>,
      [OnStateChange Connecting,
       FetchRtcToken ''student@example.org'' (Some ''7'') ''ecos_simulation'',
       GetUserMedia,
       ConsoleError ''Error starting voice chat:'',
       OnStateChange Error])"
proof -
  have t: "getRTCToken no_mic_env = Inr example_token"
    by (simp add: getRTCToken_def no_mic_env_def ok_env_def)
  have m: "user_media no_mic_env = Inl (ErrorObj ''NotFoundError'' ''Requested device not found'')"
    by (simp add: no_mic_env_def)
  show ?thesis
    using t m start_without_microphone [OF t m, of initial_VoiceChat example_props
                                          initial_VoiceChat]
    by (simp add: example_props_def)
qed

text \<open>The claim as stated fails: without a microphone the state is \<open>Error\<close>, not \<open>Idle\<close>.\<close>

theorem start_without_microphone_not_idle:
  "state (fst (startVoiceChat example_props no_mic_env initial_VoiceChat)) = Error
   \<and> state (fst (startVoiceChat example_props no_mic_env initial_VoiceChat)) \<noteq> Idle"
  by (simp add: startVoiceChat_def startVoiceChat_catch_def updateState_def initializeAudio_def
      getRTCToken_def no_mic_env_def ok_env_def)

section \<open>Stopping a session\<close>

lemma stopVoice_closed_form:
  "stopVoice c =
     (c\<lparr>dcRef := None, pcRef := None, micStreamRef := None, status := ''idle'',
        isActive := False\<rparr>,
      (case dcRef c of None \<Rightarrow> [] | Some dc \<Rightarrow> [CloseDataChannel dc])
      @ (case pcRef c of None \<Rightarrow> [] | Some pc \<Rightarrow> [ClosePeerConnection pc])
      @ (case micStreamRef c of None \<Rightarrow> [] | Some micStream \<Rightarrow> map StopTrack micStream)
      @ [SetStatus ''idle'', SetIsActive False])"
  by (simp add: stopVoice_def split: option.splits)

lemma stopVoiceChat_closed_form:
  "stopVoiceChat s =
     (s\<lparr>peerConnectionRef := None, localStreamRef := None, audioOutputRef := None,
        state := Idle\<rparr>,
      (case peerConnectionRef s of None \<Rightarrow> [] | Some pc \<Rightarrow> [ClosePeerConnection pc])
      @ (case localStreamRef s of None \<Rightarrow> [] | Some stream \<Rightarrow> map StopTrack stream)
      @ (case audioOutputRef s of None \<Rightarrow> [] | Some audio \<Rightarrow> [PauseAudio audio])
      @ [OnStateChange Idle])"
  by (simp add: stopVoiceChat_def updateState_def split: option.splits)

lemma release_StopTrack: "filter is_release (map StopTrack ts) = map StopTrack ts"
  by (induction ts) simp_all

lemma distinct_StopTrack: "distinct (map StopTrack ts) = distinct ts"
  by (simp add: distinct_map inj_on_def)

text \<open>
  C3, as amended. \<open>stopVoice\<close> closes the control channel, then the peer connection, then
  stops every local track, and does not touch the playback element; \<open>stopVoiceChat\<close>
  closes the peer connection, then stops every local track, then pauses and drops the
  playback element, and does not close the control channel itself. Each step is skipped
  when its ref is empty, so both are defined on every state and end in idle.
\<close>

theorem stop_release_order:
  "stopVoice c =
     (c\<lparr>dcRef := None, pcRef := None, micStreamRef := None, status := ''idle'',
        isActive := False\<rparr>,
      (case dcRef c of None \<Rightarrow> [] | Some dc \<Rightarrow> [CloseDataChannel dc])
      @ (case pcRef c of None \<Rightarrow> [] | Some pc \<Rightarrow> [ClosePeerConnection pc])
      @ (case micStreamRef c of None \<Rightarrow> [] | Some micStream \<Rightarrow> map StopTrack micStream)
      @ [SetStatus ''idle'', SetIsActive False])
   \<and> stopVoiceChat s =
     (s\<lparr>peerConnectionRef := None, localStreamRef := None, audioOutputRef := None,
        state := Idle\<rparr>,
      (case peerConnectionRef s of None \<Rightarrow> [] | Some pc \<Rightarrow> [ClosePeerConnection pc])
      @ (case localStreamRef s of None \<Rightarrow> [] | Some stream \<Rightarrow> map StopTrack stream)
      @ (case audioOutputRef s of None \<Rightarrow> [] | Some audio \<Rightarrow> [PauseAudio audio])
      @ [OnStateChange Idle])"
  using stopVoice_closed_form [of c] stopVoiceChat_closed_form [of s] by simp

text \<open>
  The claim as stated fails: on a session holding all four resources, \<open>stopVoiceChat\<close>
  never closes the channel and \<open>stopVoice\<close> never releases the playback element.
\<close>

theorem stop_order_counterexample:
  "snd (stopVoiceChat held_VoiceChat) =
     [ClosePeerConnection 1, StopTrack 3, PauseAudio 4, OnStateChange Idle]
   \<and> CloseDataChannel 2 \<notin> set (snd (stopVoiceChat held_VoiceChat))
   \<and> snd (stopVoice held_VoiceCommand) =
     [CloseDataChannel 2, ClosePeerConnection 1, StopTrack 3, SetStatus ''idle'',
      SetIsActive False]
   \<and> PauseAudio 4 \<notin> set (snd (stopVoice held_VoiceCommand))"
  by (simp add: stopVoice_closed_form stopVoiceChat_closed_form held_VoiceChat_def
      held_VoiceCommand_def initial_VoiceChat_def initial_VoiceCommand_def)

lemma stopVoiceChat_again:
  "stopVoiceChat (fst (stopVoiceChat s)) = (fst (stopVoiceChat s), [OnStateChange Idle])"
  by (simp add: stopVoiceChat_closed_form)

lemma stopVoice_again:
  "stopVoice (fst (stopVoice c)) = (fst (stopVoice c), [SetStatus ''idle'', SetIsActive False])"
  by (simp add: stopVoice_closed_form)

lemma stopVoiceChat_release_distinct:
  assumes "case localStreamRef s of None \<Rightarrow> True | Some stream \<Rightarrow> distinct stream"
  shows "distinct (filter is_release (snd (stopVoiceChat s)))"
  using assms
  by (cases "peerConnectionRef s"; cases "localStreamRef s"; cases "audioOutputRef s")
     (auto simp add: stopVoiceChat_closed_form release_StopTrack distinct_StopTrack)

lemma stopVoice_release_distinct:
  assumes "case micStreamRef c of None \<Rightarrow> True | Some stream \<Rightarrow> distinct stream"
  shows "distinct (filter is_release (snd (stopVoice c)))"
  using assms
  by (cases "dcRef c"; cases "pcRef c"; cases "micStreamRef c")
     (auto simp add: stopVoice_closed_form release_StopTrack distinct_StopTrack)

text \<open>
  C6. From every state, a second stop right after a first one leaves the state it finds
  (idle) and does nothing but set idle again: it performs no release. With the first call,
  no resource is released twice (for a stream whose tracks are distinct).
\<close>

theorem stop_twice:
  "stopVoiceChat (fst (stopVoiceChat s)) = (fst (stopVoiceChat s), [OnStateChange Idle])
   \<and> state (fst (stopVoiceChat (fst (stopVoiceChat s)))) = Idle
   \<and> filter is_release (snd (stopVoiceChat (fst (stopVoiceChat s)))) = []
   \<and> stopVoice (fst (stopVoice c)) = (fst (stopVoice c), [SetStatus ''idle'', SetIsActive False])
   \<and> status (fst (stopVoice (fst (stopVoice c)))) = ''idle''
   \<and> filter is_release (snd (stopVoice (fst (stopVoice c)))) = []
   \<and> ((case localStreamRef s of None \<Rightarrow> True | Some stream \<Rightarrow> distinct stream) \<longrightarrow>
        distinct (filter is_release
          (snd (stopVoiceChat s) @ snd (stopVoiceChat (fst (stopVoiceChat s))))))
   \<and> ((case micStreamRef c of None \<Rightarrow> True | Some stream \<Rightarrow> distinct stream) \<longrightarrow>
        distinct (filter is_release
          (snd (stopVoice c) @ snd (stopVoice (fst (stopVoice c))))))"
proof -
  have idle: "state (fst (stopVoiceChat s)) = Idle" "status (fst (stopVoice c)) = ''idle''"
    by (simp_all add: stopVoiceChat_closed_form stopVoice_closed_form)
  show ?thesis
    using stopVoiceChat_release_distinct [of s] stopVoice_release_distinct [of c]
    by (simp add: stopVoiceChat_again stopVoice_again idle)
qed

theorem stop_twice_witness:
  "stopVoiceChat (fst (stopVoiceChat held_VoiceChat))
     = (fst (stopVoiceChat held_VoiceChat), [OnStateChange Idle])
   \<and> state (fst (stopVoiceChat (fst (stopVoiceChat held_VoiceChat)))) = Idle
   \<and> stopVoice (fst (stopVoice held_VoiceCommand))
     = (fst (stopVoice held_VoiceCommand), [SetStatus ''idle'', SetIsActive False])
   \<and> localStreamRef held_VoiceChat = Some [3]
   \<and> micStreamRef held_VoiceCommand = Some [3]
   \<and> distinct (filter is_release
          (snd (stopVoiceChat held_VoiceChat)
           @ snd (stopVoiceChat (fst (stopVoiceChat held_VoiceChat)))))
   \<and> distinct (filter is_release
          (snd (stopVoice held_VoiceCommand)
           @ snd (stopVoice (fst (stopVoice held_VoiceCommand)))))"
  using stop_twice [of held_VoiceChat held_VoiceCommand]
  by (simp add: stopVoice_closed_form stopVoiceChat_closed_form held_VoiceChat_def
      held_VoiceCommand_def initial_VoiceChat_def initial_VoiceCommand_def)

section \<open>Frames that are not JSON\<close>

text \<open>
  C5. A frame that \<^verbatim>\<open>JSON.parse\<close> rejects is logged and dropped: in VoiceChat the whole
  component state (session state, transcript, refs) is unchanged and the only action is
  the log line; in VoiceCommand, whose handler has no state, the only action is the log
  line. No transcript call is made and no channel is closed.
\<close>

theorem malformed_frame_discarded:
  assumes "parse frame = None"
  shows "dataChannel_onmessage parse now frame s =
           (s, [ConsoleError ''Error parsing data channel message:''])
         \<and> dc_onmessage parse cb frame = [ConsoleError ''Error parsing message:'']"
  using assms by (simp add: dataChannel_onmessage_def dc_onmessage_def)

theorem malformed_frame_discarded_witness:
  "only_null_parses ''{type: resp'' = None
   \<and> dataChannel_onmessage only_null_parses 0 ''{type: resp'' held_VoiceChat =
           (held_VoiceChat, [ConsoleError ''Error parsing data channel message:''])
   \<and> dc_onmessage only_null_parses True ''{type: resp'' = [ConsoleError ''Error parsing message:'']"
proof -
  have h: "only_null_parses ''{type: resp'' = None"
    by (simp add: only_null_parses_def)
  show ?thesis
    using h malformed_frame_discarded
              [of only_null_parses "''{type: resp''" 0 held_VoiceChat True]
    by simp
qed

section \<open>The dispatcher and the current state\<close>

text \<open>
  C9. \<open>handleRealtimeEvent\<close> sets the state from the event type alone: from every state,
  speech_started gives listening, speech_stopped gives connected, and response.audio.delta
  gives speaking.
\<close>

theorem dispatcher_ignores_current_state:
  "(field ev ''type'' = Some (JStr ''input_audio_buffer.speech_started'') \<longrightarrow>
      handleRealtimeEvent now ev s = Inr (s\<lparr>state := Listening\<rparr>, [OnStateChange Listening]))
   \<and> (field ev ''type'' = Some (JStr ''input_audio_buffer.speech_stopped'') \<longrightarrow>
      handleRealtimeEvent now ev s = Inr (s\<lparr>state := Connected\<rparr>, [OnStateChange Connected]))
   \<and> (field ev ''type'' = Some (JStr ''response.audio.delta'') \<longrightarrow>
      handleRealtimeEvent now ev s = Inr (s\<lparr>state := Speaking\<rparr>, [OnStateChange Speaking]))"
  by (auto simp add: handleRealtimeEvent_def updateState_def)

theorem dispatcher_ignores_current_state_witness:
  "handleRealtimeEvent 0 (JObj [(''type'', JStr ''input_audio_buffer.speech_started'')])
       initial_VoiceChat
     = Inr (initial_VoiceChat\<lparr>state := Listening\<rparr>, [OnStateChange Listening])
   \<and> handleRealtimeEvent 0 (JObj [(''type'', JStr ''input_audio_buffer.speech_stopped'')])
       (initial_VoiceChat\<lparr>state := Connecting\<rparr>)
     = Inr (initial_VoiceChat\<lparr>state := Connected\<rparr>, [OnStateChange Connected])
   \<and> handleRealtimeEvent 0 (JObj [(''type'', JStr ''response.audio.delta'')])
       (initial_VoiceChat\<lparr>state := Error\<rparr>)
     = Inr (initial_VoiceChat\<lparr>state := Speaking\<rparr>, [OnStateChange Speaking])"
  using dispatcher_ignores_current_state
          [of "JObj [(''type'', JStr ''input_audio_buffer.speech_started'')]" 0 initial_VoiceChat]
        dispatcher_ignores_current_state
          [of "JObj [(''type'', JStr ''input_audio_buffer.speech_stopped'')]" 0
              "initial_VoiceChat\<lparr>state := Connecting\<rparr>"]
        dispatcher_ignores_current_state
          [of "JObj [(''type'', JStr ''response.audio.delta'')]" 0
              "initial_VoiceChat\<lparr>state := Error\<rparr>"]
  by simp

section \<open>Traces of a start\<close>

lemma no_channel_in_AddTrack: "filter is_CreateDataChannel (map (AddTrack pc) ts) = []"
  by (induction ts) simp_all

lemma no_offer_in_AddTrack:
  "takeWhile (\<lambda>a. \<not> is_CreateOffer a) (map (AddTrack pc) ts @ rest)
     = map (AddTrack pc) ts @ takeWhile (\<lambda>a. \<not> is_CreateOffer a) rest"
  by (induction ts) simp_all

lemma no_exchange_in_AddTrack: "list_ex is_exchange (map (AddTrack pc) ts) = False"
  by (induction ts) simp_all

lemma no_offer_ex_AddTrack: "list_ex is_CreateOffer (map (AddTrack pc) ts) = False"
  by (induction ts) simp_all

lemma startVoiceChat_channels:
  "filter is_CreateDataChannel (snd (startVoiceChat p env s)) =
     (if list_ex is_CreateOffer (snd (startVoiceChat p env s))
      then [CreateDataChannel (new_pc env) (new_dc env) ''events''
              \<lparr>ordered = Some True, maxPacketLifeTime = None, maxRetransmits = None\<rparr>]
      else [])"
  by (simp add: startVoiceChat_def startVoiceChat_catch_def updateState_def
        initializeAudio_def createPeerConnection_def Let_def no_channel_in_AddTrack
        no_offer_ex_AddTrack
      split: sum.splits option.splits)

lemma startVoiceChat_before_offer:
  "list_ex is_CreateOffer (snd (startVoiceChat p env s)) \<Longrightarrow>
   channels_before_offer (snd (startVoiceChat p env s)) =
     [CreateDataChannel (new_pc env) (new_dc env) ''events''
              \<lparr>ordered = Some True, maxPacketLifeTime = None, maxRetransmits = None\<rparr>]"
  by (simp add: startVoiceChat_def startVoiceChat_catch_def updateState_def
        initializeAudio_def createPeerConnection_def Let_def no_channel_in_AddTrack
        no_offer_ex_AddTrack no_offer_in_AddTrack channels_before_offer_def
      split: sum.splits option.splits)

lemma startVoice_channels:
  "filter is_CreateDataChannel (snd (startVoice p env c)) =
     (if list_ex is_CreateDataChannel (snd (startVoice p env c))
      then [CreateDataChannel (new_pc env) (new_dc env) ''oai-events''
              \<lparr>ordered = None, maxPacketLifeTime = None, maxRetransmits = None\<rparr>]
      else [])"
  by (simp add: startVoice_def startVoice_catch_def Let_def no_channel_in_AddTrack
      split: sum.split option.split)

lemma startVoice_before_offer:
  "list_ex is_CreateOffer (snd (startVoice p env c)) \<longrightarrow>
   channels_before_offer (snd (startVoice p env c)) =
     [CreateDataChannel (new_pc env) (new_dc env) ''oai-events''
              \<lparr>ordered = None, maxPacketLifeTime = None, maxRetransmits = None\<rparr>]
   \<and> filter is_CreateDataChannel (snd (startVoice p env c)) =
     [CreateDataChannel (new_pc env) (new_dc env) ''oai-events''
              \<lparr>ordered = None, maxPacketLifeTime = None, maxRetransmits = None\<rparr>]"
  by (simp add: startVoice_def startVoice_catch_def Let_def no_channel_in_AddTrack
        no_offer_ex_AddTrack no_offer_in_AddTrack channels_before_offer_def
      split: sum.split option.split)

lemma startVoice_connected:
  "status (fst (startVoice p env c)) = ''connected'' \<longrightarrow>
     (\<exists>response tok micStream sdp rtcResponse answerSdp.
        token_fetch env = Inr response \<and> ok response \<and> body response = Inr tok \<and> tok \<noteq> JNull
        \<and> user_media env = Inr micStream
        \<and> offer env = Inr sdp \<and> local_desc env = None
        \<and> sdp_fetch env = Inr rtcResponse \<and> ok rtcResponse \<and> body rtcResponse = Inr answerSdp
        \<and> remote_desc env = None
        \<and> startVoice p env c =
          (c\<lparr>pcRef := Some (new_pc env), dcRef := Some (new_dc env),
             micStreamRef := Some micStream,
             onopen := Some (new_dc env, field tok ''instructions''),
             status := ''connected'', isActive := True\<rparr>,
           [SetStatus ''connecting'',
            FetchRtcToken (userId p) (scenarioId p) (sessionType p),
            NewPeerConnection (new_pc env),
            CreateDataChannel (new_pc env) (new_dc env) ''oai-events''
              \<lparr>ordered = None, maxPacketLifeTime = None, maxRetransmits = None\<rparr>,
            GetUserMedia]
           @ map (AddTrack (new_pc env)) micStream
           @ [CreateOffer (new_pc env),
              SetLocalDescription (new_pc env) sdp,
              PostOffer (field tok ''client_secret'') sdp,
              SetRemoteDescription (new_pc env) answerSdp,
              SetStatus ''connected'',
              SetIsActive True]))"
  by (simp add: startVoice_def startVoice_catch_def Let_def split: sum.split option.split)

lemma startVoiceChat_no_exchange:
  "\<not> list_ex is_exchange (snd (startVoiceChat p env s))"
  by (simp add: startVoiceChat_def startVoiceChat_catch_def updateState_def
        initializeAudio_def createPeerConnection_def Let_def no_exchange_in_AddTrack
      split: sum.split option.split)

lemma ok_env_startVoice:
  "startVoice example_props ok_env initial_VoiceCommand =
     (\<lparr>isActive = True, status = ''connected'', pcRef = Some 1, micStreamRef = Some [3],
       dcRef = Some 2, onopen = Some (2, Some (JStr ''Be brief.''))\<rparr>,
      [SetStatus ''connecting'',
       FetchRtcToken ''student@example.org'' (Some ''7'') ''ecos_simulation'',
       NewPeerConnection 1,
       CreateDataChannel 1 2 ''oai-events''
         \<lparr>ordered = None, maxPacketLifeTime = None, maxRetransmits = None\<rparr>,
       GetUserMedia, AddTrack 1 3, CreateOffer 1,
       SetLocalDescription 1 ''v=0 offer'',
       PostOffer (Some (JStr ''sk-key'')) ''v=0 offer'',
       SetRemoteDescription 1 ''v=0 answer'', SetStatus ''connected'',
       SetIsActive True])"
  by (simp add: startVoice_def ok_env_def example_token_def example_props_def
      initial_VoiceCommand_def)

lemma ok_env_startVoiceChat:
  "startVoiceChat example_props ok_env initial_VoiceChat =
     (\<lparr>state = Connected, isMuted = False, isOutputMuted = False,
       transcript = [], error = None, peerConnectionRef = Some 1,
       localStreamRef = Some [3], audioOutputRef = None,
       dataChannelRef = Some 2\<rparr>,
      [OnStateChange Connecting,
       FetchRtcToken ''student@example.org'' (Some ''7'') ''ecos_simulation'',
       GetUserMedia, NewPeerConnection 1,
       CreateDataChannel 1 2 ''events''
        \<lparr>ordered = Some True, maxPacketLifeTime = None, maxRetransmits = None\<rparr>,
       AddTrack 1 3, CreateOffer 1, SetLocalDescription 1 ''v=0 offer'',
       ConsoleLog ''SDP Offer:'', OnStateChange Connected])"
  by (simp add: startVoiceChat_def updateState_def initializeAudio_def getRTCToken_def
        createPeerConnection_def ok_env_def example_props_def initial_VoiceChat_def)

section \<open>The control channel and the offer\<close>

text \<open>
  C7. In both components a start that reaches the generation of the offer has created
  exactly one data channel on the new peer connection, before the offer; the channel is
  ordered and reliable. No start creates more than one channel.
\<close>

theorem one_channel_before_offer:
  "(list_ex is_CreateOffer (snd (startVoiceChat p env s)) \<longrightarrow>
      (\<exists>i. filter is_CreateDataChannel (snd (startVoiceChat p env s))
              = [CreateDataChannel (new_pc env) (new_dc env) ''events'' i]
          \<and> channels_before_offer (snd (startVoiceChat p env s))
              = [CreateDataChannel (new_pc env) (new_dc env) ''events'' i]
          \<and> dc_ordered i \<and> dc_reliable i))
   \<and> length (filter is_CreateDataChannel (snd (startVoiceChat p env s))) \<le> 1
   \<and> (list_ex is_CreateOffer (snd (startVoice p env c)) \<longrightarrow>
      (\<exists>i. filter is_CreateDataChannel (snd (startVoice p env c))
              = [CreateDataChannel (new_pc env) (new_dc env) ''oai-events'' i]
          \<and> channels_before_offer (snd (startVoice p env c))
              = [CreateDataChannel (new_pc env) (new_dc env) ''oai-events'' i]
          \<and> dc_ordered i \<and> dc_reliable i))
   \<and> length (filter is_CreateDataChannel (snd (startVoice p env c))) \<le> 1"
proof -
  have a: "list_ex is_CreateOffer (snd (startVoiceChat p env s)) \<longrightarrow>
      (\<exists>i. filter is_CreateDataChannel (snd (startVoiceChat p env s))
              = [CreateDataChannel (new_pc env) (new_dc env) ''events'' i]
          \<and> channels_before_offer (snd (startVoiceChat p env s))
              = [CreateDataChannel (new_pc env) (new_dc env) ''events'' i]
          \<and> dc_ordered i \<and> dc_reliable i)"
    using startVoiceChat_channels [of p env s] startVoiceChat_before_offer [of p env s]
    by (simp add: dc_ordered_def dc_reliable_def)
  have b: "length (filter is_CreateDataChannel (snd (startVoiceChat p env s))) \<le> 1"
    by (simp add: startVoiceChat_channels)
  have c: "list_ex is_CreateOffer (snd (startVoice p env c)) \<longrightarrow>
      (\<exists>i. filter is_CreateDataChannel (snd (startVoice p env c))
              = [CreateDataChannel (new_pc env) (new_dc env) ''oai-events'' i]
          \<and> channels_before_offer (snd (startVoice p env c))
              = [CreateDataChannel (new_pc env) (new_dc env) ''oai-events'' i]
          \<and> dc_ordered i \<and> dc_reliable i)"
    using startVoice_before_offer [of p env c]
    by (simp add: dc_ordered_def dc_reliable_def)
  have d: "length (filter is_CreateDataChannel (snd (startVoice p env c))) \<le> 1"
    by (simp add: startVoice_channels)
  from a b c d show ?thesis by blast
qed

theorem one_channel_before_offer_witness:
  "list_ex is_CreateOffer (snd (startVoiceChat example_props ok_env initial_VoiceChat))
   \<and> list_ex is_CreateOffer (snd (startVoice example_props ok_env initial_VoiceCommand))
   \<and> (\<exists>i. filter is_CreateDataChannel (snd (startVoiceChat example_props ok_env initial_VoiceChat))
              = [CreateDataChannel 1 2 ''events'' i]
          \<and> channels_before_offer (snd (startVoiceChat example_props ok_env initial_VoiceChat))
              = [CreateDataChannel 1 2 ''events'' i]
          \<and> dc_ordered i \<and> dc_reliable i)
   \<and> (\<exists>i. filter is_CreateDataChannel (snd (startVoice example_props ok_env initial_VoiceCommand))
              = [CreateDataChannel 1 2 ''oai-events'' i]
          \<and> channels_before_offer (snd (startVoice example_props ok_env initial_VoiceCommand))
              = [CreateDataChannel 1 2 ''oai-events'' i]
          \<and> dc_ordered i \<and> dc_reliable i)"
proof -
  have a: "list_ex is_CreateOffer (snd (startVoiceChat example_props ok_env initial_VoiceChat))"
    by (simp add: startVoiceChat_def updateState_def initializeAudio_def getRTCToken_def
        createPeerConnection_def ok_env_def)
  have b: "list_ex is_CreateOffer (snd (startVoice example_props ok_env initial_VoiceCommand))"
    by (simp add: startVoice_def ok_env_def example_token_def)
  have n: "new_pc ok_env = 1" "new_dc ok_env = 2"
    by (simp_all add: ok_env_def)
  show ?thesis
    using a b n
      one_channel_before_offer [of example_props ok_env initial_VoiceChat initial_VoiceCommand]
    by simp
qed

section \<open>The offer/answer exchange\<close>

text \<open>
  C8, as amended. In VoiceCommand a start that ends in status connected has, in this
  order, applied the local offer, posted that offer to the remote endpoint, applied the
  answer it got back as the remote description, and only then set the status to
  connected. In VoiceChat the exchange is simulated: no start posts the offer or applies
  a remote description.
\<close>

theorem exchange_before_connected:
  "(status (fst (startVoice p env c)) = ''connected'' \<longrightarrow>
      (\<exists>response tok micStream sdp rtcResponse answerSdp.
         token_fetch env = Inr response \<and> body response = Inr tok
         \<and> offer env = Inr sdp
         \<and> sdp_fetch env = Inr rtcResponse \<and> ok rtcResponse \<and> body rtcResponse = Inr answerSdp
         \<and> snd (startVoice p env c) =
           [SetStatus ''connecting'',
            FetchRtcToken (userId p) (scenarioId p) (sessionType p),
            NewPeerConnection (new_pc env),
            CreateDataChannel (new_pc env) (new_dc env) ''oai-events''
              \<lparr>ordered = None, maxPacketLifeTime = None, maxRetransmits = None\<rparr>,
            GetUserMedia]
           @ map (AddTrack (new_pc env)) micStream
           @ [CreateOffer (new_pc env),
              SetLocalDescription (new_pc env) sdp,
              PostOffer (field tok ''client_secret'') sdp,
              SetRemoteDescription (new_pc env) answerSdp,
              SetStatus ''connected'',
              SetIsActive True]))
   \<and> \<not> list_ex is_exchange (snd (startVoiceChat p env s))"
  using startVoice_connected [of p env c] startVoiceChat_no_exchange [of p env s]
  by (metis snd_conv)

theorem exchange_before_connected_witness:
  "status (fst (startVoice example_props ok_env initial_VoiceCommand)) = ''connected''
   \<and> (\<exists>response tok micStream sdp rtcResponse answerSdp.
         token_fetch ok_env = Inr response \<and> body response = Inr tok
         \<and> offer ok_env = Inr sdp
         \<and> sdp_fetch ok_env = Inr rtcResponse \<and> ok rtcResponse \<and> body rtcResponse = Inr answerSdp
         \<and> snd (startVoice example_props ok_env initial_VoiceCommand) =
           [SetStatus ''connecting'',
            FetchRtcToken (userId example_props) (scenarioId example_props)
              (sessionType example_props),
            NewPeerConnection (new_pc ok_env),
            CreateDataChannel (new_pc ok_env) (new_dc ok_env) ''oai-events''
              \<lparr>ordered = None, maxPacketLifeTime = None, maxRetransmits = None\<rparr>,
            GetUserMedia]
           @ map (AddTrack (new_pc ok_env)) micStream
           @ [CreateOffer (new_pc ok_env),
              SetLocalDescription (new_pc ok_env) sdp,
              PostOffer (field tok ''client_secret'') sdp,
              SetRemoteDescription (new_pc ok_env) answerSdp,
              SetStatus ''connected'',
              SetIsActive True])"
proof -
  have a: "status (fst (startVoice example_props ok_env initial_VoiceCommand)) = ''connected''"
    by (simp add: ok_env_startVoice)
  from a exchange_before_connected [of example_props ok_env initial_VoiceCommand
         initial_VoiceChat]
  show ?thesis by blast
qed

text \<open>
  The claim as stated fails: VoiceChat reports connected after logging the offer, with no
  exchange and no remote description.
\<close>

theorem simulated_exchange_counterexample:
  "state (fst (startVoiceChat example_props ok_env initial_VoiceChat)) = Connected
   \<and> snd (startVoiceChat example_props ok_env initial_VoiceChat) =
      [OnStateChange Connecting,
       FetchRtcToken ''student@example.org'' (Some ''7'') ''ecos_simulation'',
       GetUserMedia, NewPeerConnection 1,
       CreateDataChannel 1 2 ''events''
        \<lparr>ordered = Some True, maxPacketLifeTime = None, maxRetransmits = None\<rparr>,
       AddTrack 1 3, CreateOffer 1, SetLocalDescription 1 ''v=0 offer'',
       ConsoleLog ''SDP Offer:'', OnStateChange Connected]
   \<and> \<not> list_ex is_exchange (snd (startVoiceChat example_props ok_env initial_VoiceChat))"
  by (simp add: ok_env_startVoiceChat)

section \<open>The session-control message\<close>

lemma dc_onopen_session:
  "\<exists>m session. dc_onopen dc instr = [Send dc m]
     \<and> field m ''type'' = Some (JStr ''session.update'')
     \<and> field m ''session'' = Some session
     \<and> field session ''instructions'' = instr
     \<and> field session ''input_audio_format'' = Some (JStr ''pcm16'')
     \<and> field session ''output_audio_format'' = Some (JStr ''pcm16'')
     \<and> field session ''input_audio_transcription'' = Some (JObj [(''model'', JStr ''whisper-1'')])
     \<and> field session ''turn_detection'' =
           Some (JObj [(''type'', JStr ''server_vad''), (''threshold'', JNum (1 / 2)),
                       (''silence_duration_ms'', JNum 500)])
     \<and> (instr \<noteq> None \<longrightarrow> spec_session_control instr m)"
  by (cases instr) (simp_all add: dc_onopen_def spec_session_control_def)

lemma dataChannel_onopen_session:
  "tok \<noteq> JNull \<Longrightarrow>
   \<exists>m. dataChannel_onopen tok dc = Inr [ConsoleLog ''Data channel opened'', Send dc m]
     \<and> field m ''type'' = Some (JStr ''session_update'')
     \<and> field m ''session'' = Some (JObj (obj [(''token'', field tok ''token'')]))
     \<and> \<not> spec_session_control instr m"
  by (cases "field tok ''token''") (simp_all add: dataChannel_onopen_def spec_session_control_def)

text \<open>
  C2, as amended. When the control channel opens, the installed handler sends exactly one
  session-control message. In VoiceCommand (after a start that ended connected) it is a
  \<^verbatim>\<open>session.update\<close> carrying the credential's instructions, the input and output audio
  formats pcm16, the transcription model whisper-1 and a server VAD policy with threshold
  0.5 and silence duration 500 ms. In VoiceChat it is a \<^verbatim>\<open>session_update\<close> carrying only the
  credential's token, which never meets the specification's rule.
\<close>

theorem session_control_on_open:
  "(status (fst (startVoice p env c)) = ''connected'' \<longrightarrow>
      (\<exists>response tok m session.
         token_fetch env = Inr response \<and> body response = Inr tok
         \<and> channel_open (fst (startVoice p env c)) = [Send (new_dc env) m]
         \<and> field m ''type'' = Some (JStr ''session.update'')
         \<and> field m ''session'' = Some session
         \<and> field session ''instructions'' = field tok ''instructions''
         \<and> field session ''input_audio_format'' = Some (JStr ''pcm16'')
         \<and> field session ''output_audio_format'' = Some (JStr ''pcm16'')
         \<and> field session ''input_audio_transcription''
              = Some (JObj [(''model'', JStr ''whisper-1'')])
         \<and> field session ''turn_detection'' =
              Some (JObj [(''type'', JStr ''server_vad''), (''threshold'', JNum (1 / 2)),
                          (''silence_duration_ms'', JNum 500)])
         \<and> (field tok ''instructions'' \<noteq> None \<longrightarrow>
              spec_session_control (field tok ''instructions'') m)))
   \<and> (token \<noteq> JNull \<longrightarrow>
      (\<exists>m. dataChannel_onopen token dc = Inr [ConsoleLog ''Data channel opened'', Send dc m]
         \<and> field m ''type'' = Some (JStr ''session_update'')
         \<and> field m ''session'' = Some (JObj (obj [(''token'', field token ''token'')]))
         \<and> \<not> spec_session_control instr m))"
proof -
  have a: "status (fst (startVoice p env c)) = ''connected'' \<longrightarrow>
      (\<exists>response tok m session.
         token_fetch env = Inr response \<and> body response = Inr tok
         \<and> channel_open (fst (startVoice p env c)) = [Send (new_dc env) m]
         \<and> field m ''type'' = Some (JStr ''session.update'')
         \<and> field m ''session'' = Some session
         \<and> field session ''instructions'' = field tok ''instructions''
         \<and> field session ''input_audio_format'' = Some (JStr ''pcm16'')
         \<and> field session ''output_audio_format'' = Some (JStr ''pcm16'')
         \<and> field session ''input_audio_transcription''
              = Some (JObj [(''model'', JStr ''whisper-1'')])
         \<and> field session ''turn_detection'' =
              Some (JObj [(''type'', JStr ''server_vad''), (''threshold'', JNum (1 / 2)),
                          (''silence_duration_ms'', JNum 500)])
         \<and> (field tok ''instructions'' \<noteq> None \<longrightarrow>
              spec_session_control (field tok ''instructions'') m))"
  proof
    assume "status (fst (startVoice p env c)) = ''connected''"
    with startVoice_connected [of p env c]
    obtain response tok r where
      h: "token_fetch env = Inr response" "body response = Inr tok"
         "onopen (fst (startVoice p env c)) = Some (new_dc env, field tok ''instructions'')"
      by fastforce
    from h(3) have o: "channel_open (fst (startVoice p env c))
                        = dc_onopen (new_dc env) (field tok ''instructions'')"
      by (simp add: channel_open_def)
    from dc_onopen_session [of "new_dc env" "field tok ''instructions''"] h(1,2) o
    show "\<exists>response tok m session.
         token_fetch env = Inr response \<and> body response = Inr tok
         \<and> channel_open (fst (startVoice p env c)) = [Send (new_dc env) m]
         \<and> field m ''type'' = Some (JStr ''session.update'')
         \<and> field m ''session'' = Some session
         \<and> field session ''instructions'' = field tok ''instructions''
         \<and> field session ''input_audio_format'' = Some (JStr ''pcm16'')
         \<and> field session ''output_audio_format'' = Some (JStr ''pcm16'')
         \<and> field session ''input_audio_transcription''
              = Some (JObj [(''model'', JStr ''whisper-1'')])
         \<and> field session ''turn_detection'' =
              Some (JObj [(''type'', JStr ''server_vad''), (''threshold'', JNum (1 / 2)),
                          (''silence_duration_ms'', JNum 500)])
         \<and> (field tok ''instructions'' \<noteq> None \<longrightarrow>
              spec_session_control (field tok ''instructions'') m)"
      by metis
  qed
  from a dataChannel_onopen_session [of token dc instr] show ?thesis by blast
qed


theorem session_control_on_open_witness:
  "status (fst (startVoice example_props ok_env initial_VoiceCommand)) = ''connected''
   \<and> example_token \<noteq> JNull
   \<and> (\<exists>response tok m session.
         token_fetch ok_env = Inr response \<and> body response = Inr tok
         \<and> channel_open (fst (startVoice example_props ok_env initial_VoiceCommand))
              = [Send (new_dc ok_env) m]
         \<and> field m ''type'' = Some (JStr ''session.update'')
         \<and> field m ''session'' = Some session
         \<and> field session ''instructions'' = field tok ''instructions''
         \<and> field session ''input_audio_format'' = Some (JStr ''pcm16'')
         \<and> field session ''output_audio_format'' = Some (JStr ''pcm16'')
         \<and> field session ''input_audio_transcription''
              = Some (JObj [(''model'', JStr ''whisper-1'')])
         \<and> field session ''turn_detection'' =
              Some (JObj [(''type'', JStr ''server_vad''), (''threshold'', JNum (1 / 2)),
                          (''silence_duration_ms'', JNum 500)]))
   \<and> (\<exists>m. dataChannel_onopen example_token 2
              = Inr [ConsoleLog ''Data channel opened'', Send 2 m]
         \<and> field m ''type'' = Some (JStr ''session_update'')
         \<and> field m ''session'' = Some (JObj (obj [(''token'', field example_token ''token'')]))
         \<and> \<not> spec_session_control (Some (JStr ''Be brief.'')) m)"
proof -
  have a: "status (fst (startVoice example_props ok_env initial_VoiceCommand)) = ''connected''"
    by (simp add: ok_env_startVoice)
  have b: "example_token \<noteq> JNull"
    by (simp add: example_token_def)
  from a b session_control_on_open [of example_props ok_env initial_VoiceCommand
         example_token 2 "Some (JStr ''Be brief.'')"]
  show ?thesis by blast
qed

text \<open>
  The claim as stated fails: for a credential with instructions, the message VoiceChat
  sends carries neither them nor any audio format, model or detection policy.
\<close>

theorem session_update_token_only:
  "dataChannel_onopen example_token 2 =
     Inr [ConsoleLog ''Data channel opened'',
          Send 2 (JObj [(''type'', JStr ''session_update''),
                        (''session'', JObj [(''token'', JStr ''tok'')])])]
   \<and> field example_token ''instructions'' = Some (JStr ''Be brief.'')
   \<and> \<not> spec_session_control (field example_token ''instructions'')
         (JObj [(''type'', JStr ''session_update''),
                (''session'', JObj [(''token'', JStr ''tok'')])])"
  by (simp add: dataChannel_onopen_def example_token_def spec_session_control_def)

section \<open>The credential endpoint\<close>

lemma rtc_token_ok:
  "rtc_token k toISO now b = Reply 200 r \<longrightarrow>
     (\<exists>key. k = Some key \<and> key \<noteq> []
        \<and> field r ''client_secret'' = Some (JStr key)
        \<and> field r ''expiresAt'' = Some (JStr (toISO (now + 3600000))))"
  by (cases "field b ''userId''"; cases "field b ''scenarioId''"; cases "field b ''sessionType''")
     (auto simp add: rtc_token_def Let_def split: option.split)

lemma rtc_token_succeeds:
  "key \<noteq> [] \<and> truthy (field b ''userId'') \<longrightarrow>
     (\<exists>r. rtc_token (Some key) toISO now b = Reply 200 r)"
  by (cases "b = JNull") (auto simp add: rtc_token_def Let_def)

lemma startVoice_ignores_expiresAt:
  "startVoice p (env\<lparr>token_fetch :=
       Inr \<lparr>ok = o1, statusText = st, body = Inr (JObj (kvs @ [(''expiresAt'', e1)]))\<rparr>\<rparr>) c
   = startVoice p (env\<lparr>token_fetch :=
       Inr \<lparr>ok = o1, statusText = st, body = Inr (JObj (kvs @ [(''expiresAt'', e2)]))\<rparr>\<rparr>) c"
  by (simp add: startVoice_def Let_def cong: sum.case_cong option.case_cong if_cong)

lemma startVoiceChat_ignores_expiresAt:
  "startVoiceChat p (env\<lparr>token_fetch :=
       Inr \<lparr>ok = o1, statusText = st, body = Inr (JObj (kvs @ [(''expiresAt'', e1)]))\<rparr>\<rparr>) s
   = startVoiceChat p (env\<lparr>token_fetch :=
       Inr \<lparr>ok = o1, statusText = st, body = Inr (JObj (kvs @ [(''expiresAt'', e2)]))\<rparr>\<rparr>) s"
  by (simp add: startVoiceChat_def getRTCToken_def initializeAudio_def createPeerConnection_def
        Let_def
      cong: sum.case_cong option.case_cong if_cong)

lemma dataChannel_onopen_ignores_expiresAt:
  "dataChannel_onopen (JObj (kvs @ [(''expiresAt'', e1)])) dc
   = dataChannel_onopen (JObj (kvs @ [(''expiresAt'', e2)])) dc"
  by (simp add: dataChannel_onopen_def)

lemma example_request_reply:
  "rtc_token (Some ''sk-key'') toISO now example_request =
     Reply 200 (JObj [(''client_secret'', JStr ''sk-key''),
                      (''instructions'', JStr ecos_instructions),
                      (''sessionType'', JStr ''ecos_simulation''),
                      (''userId'', JStr ''student@example.org''),
                      (''scenarioId'', JStr ''7''),
                      (''expiresAt'', JStr (toISO (now + 3600000)))])"
  by (simp add: rtc_token_def example_request_def)

lemma other_request_reply:
  "rtc_token (Some ''sk-key'') toISO now other_request =
     Reply 200 (JObj [(''client_secret'', JStr ''sk-key''),
                      (''instructions'', JStr chat_instructions),
                      (''sessionType'', JStr ''chat''),
                      (''userId'', JStr ''teacher@example.org''),
                      (''expiresAt'', JStr (toISO (now + 3600000)))])"
  by (simp add: rtc_token_def other_request_def)

text \<open>
  C10. Every credential the endpoint issues carries the server's API key as its secret,
  whatever the request fields, so two issued credentials carry the same secret; its
  \<^verbatim>\<open>expiresAt\<close> is the request time plus 3600000 ms. A request with a truthy userId is
  answered with a credential whenever the key is configured. Both clients' starts and
  VoiceChat's channel-open handler do the same whatever \<^verbatim>\<open>expiresAt\<close> the credential
  carries: the expiry is never read.
\<close>

theorem rtc_token_same_secret:
  "(rtc_token k toISO now b = Reply 200 r \<longrightarrow>
     (\<exists>key. k = Some key \<and> key \<noteq> []
        \<and> field r ''client_secret'' = Some (JStr key)
        \<and> field r ''expiresAt'' = Some (JStr (toISO (now + 3600000)))))
   \<and> (rtc_token k toISO now b = Reply 200 r \<and> rtc_token k toISO now' b' = Reply 200 r' \<longrightarrow>
        field r ''client_secret'' = field r' ''client_secret'')
   \<and> (key \<noteq> [] \<and> truthy (field b ''userId'') \<longrightarrow>
        (\<exists>r. rtc_token (Some key) toISO now b = Reply 200 r))
   \<and> startVoice p (env\<lparr>token_fetch :=
         Inr \<lparr>ok = o1, statusText = st, body = Inr (JObj (kvs @ [(''expiresAt'', e1)]))\<rparr>\<rparr>) c
      = startVoice p (env\<lparr>token_fetch :=
         Inr \<lparr>ok = o1, statusText = st, body = Inr (JObj (kvs @ [(''expiresAt'', e2)]))\<rparr>\<rparr>) c
   \<and> startVoiceChat p (env\<lparr>token_fetch :=
         Inr \<lparr>ok = o1, statusText = st, body = Inr (JObj (kvs @ [(''expiresAt'', e1)]))\<rparr>\<rparr>) s
      = startVoiceChat p (env\<lparr>token_fetch :=
         Inr \<lparr>ok = o1, statusText = st, body = Inr (JObj (kvs @ [(''expiresAt'', e2)]))\<rparr>\<rparr>) s
   \<and> dataChannel_onopen (JObj (kvs @ [(''expiresAt'', e1)])) dc
      = dataChannel_onopen (JObj (kvs @ [(''expiresAt'', e2)])) dc"
proof -
  have pair: "rtc_token k toISO now b = Reply 200 r \<and> rtc_token k toISO now' b' = Reply 200 r' \<longrightarrow>
        field r ''client_secret'' = field r' ''client_secret''"
    using rtc_token_ok [of k toISO now b r] rtc_token_ok [of k toISO now' b' r'] by auto
  show ?thesis
    by (intro conjI) (rule rtc_token_ok, rule pair, rule rtc_token_succeeds,
        rule startVoice_ignores_expiresAt, rule startVoiceChat_ignores_expiresAt,
        rule dataChannel_onopen_ignores_expiresAt)
qed

theorem rtc_token_same_secret_witness:
  "rtc_token (Some ''sk-key'') sample_toISOString 1000 example_request =
     Reply 200 (JObj [(''client_secret'', JStr ''sk-key''),
                      (''instructions'', JStr ecos_instructions),
                      (''sessionType'', JStr ''ecos_simulation''),
                      (''userId'', JStr ''student@example.org''),
                      (''scenarioId'', JStr ''7''),
                      (''expiresAt'', JStr ''1970-01-01T01:00:01.000Z'')])
   \<and> rtc_token (Some ''sk-key'') sample_toISOString 5000 other_request =
     Reply 200 (JObj [(''client_secret'', JStr ''sk-key''),
                      (''instructions'', JStr chat_instructions),
                      (''sessionType'', JStr ''chat''),
                      (''userId'', JStr ''teacher@example.org''),
                      (''expiresAt'', JStr ''1970-01-01T01:00:05.000Z'')])
   \<and> field (JObj [(''client_secret'', JStr ''sk-key''),
                      (''instructions'', JStr ecos_instructions),
                      (''sessionType'', JStr ''ecos_simulation''),
                      (''userId'', JStr ''student@example.org''),
                      (''scenarioId'', JStr ''7''),
                      (''expiresAt'', JStr ''1970-01-01T01:00:01.000Z'')]) ''client_secret''
       = field (JObj [(''client_secret'', JStr ''sk-key''),
                      (''instructions'', JStr chat_instructions),
                      (''sessionType'', JStr ''chat''),
                      (''userId'', JStr ''teacher@example.org''),
                      (''expiresAt'', JStr ''1970-01-01T01:00:05.000Z'')]) ''client_secret''
   \<and> ''sk-key'' \<noteq> []
   \<and> truthy (field example_request ''userId'')
   \<and> (\<exists>r. rtc_token (Some ''sk-key'') sample_toISOString 1000 example_request = Reply 200 r)"
proof -
  have a: "rtc_token (Some ''sk-key'') sample_toISOString 1000 example_request =
     Reply 200 (JObj [(''client_secret'', JStr ''sk-key''),
                      (''instructions'', JStr ecos_instructions),
                      (''sessionType'', JStr ''ecos_simulation''),
                      (''userId'', JStr ''student@example.org''),
                      (''scenarioId'', JStr ''7''),
                      (''expiresAt'', JStr ''1970-01-01T01:00:01.000Z'')])"
    by (simp add: example_request_reply sample_toISOString_def)
  have b: "rtc_token (Some ''sk-key'') sample_toISOString 5000 other_request =
     Reply 200 (JObj [(''client_secret'', JStr ''sk-key''),
                      (''instructions'', JStr chat_instructions),
                      (''sessionType'', JStr ''chat''),
                      (''userId'', JStr ''teacher@example.org''),
                      (''expiresAt'', JStr ''1970-01-01T01:00:05.000Z'')])"
    by (simp add: other_request_reply sample_toISOString_def)
  have c: "''sk-key'' \<noteq> []" "truthy (field example_request ''userId'')"
    by (simp_all add: example_request_def)
  from a b c
    rtc_token_same_secret [where k = "Some ''sk-key''" and toISO = sample_toISOString
      and now = 1000 and b = example_request and now' = 5000 and b' = other_request
      and key = "''sk-key''"
      and r = "JObj [(''client_secret'', JStr ''sk-key''),
                      (''instructions'', JStr ecos_instructions),
                      (''sessionType'', JStr ''ecos_simulation''),
                      (''userId'', JStr ''student@example.org''),
                      (''scenarioId'', JStr ''7''),
                      (''expiresAt'', JStr ''1970-01-01T01:00:01.000Z'')]"
      and r' = "JObj [(''client_secret'', JStr ''sk-key''),
                      (''instructions'', JStr chat_instructions),
                      (''sessionType'', JStr ''chat''),
                      (''userId'', JStr ''teacher@example.org''),
                      (''expiresAt'', JStr ''1970-01-01T01:00:05.000Z'')]"]
  show ?thesis by blast
qed

end
